theory Spec2Isabelle
  imports Complex_Main "HOL-Library.Word" "HOL-Library.Sublist"
begin

section \<open>JavaScript values used by \<open>src/index.ts\<close>\<close>

text \<open>
  A JavaScript string is a sequence of UTF-16 code units. Literals of the source are
  written \<open>js ''...''\<close>; characters outside ASCII (the emoji of the messages, the quote
  characters) are given by their code units.
\<close>

type_synonym jsstring = "16 word list"

definition js :: "string \<Rightarrow> jsstring" where
  "js s = map of_char s"

text \<open>A value of type \<open>T | null | undefined\<close>, as the fields of the Drive API schema are.\<close>

datatype 'a js_opt = Undefined | Null | Val 'a

text \<open>Interpolation \<open>${x}\<close> of such a value into a template literal.\<close>

fun tpl :: "jsstring js_opt \<Rightarrow> jsstring" where
  "tpl Undefined = js ''undefined''"
| "tpl Null = js ''null''"
| "tpl (Val s) = s"

text \<open>Truthiness of an optional string: \<open>undefined\<close>, \<open>null\<close> and \<open>""\<close> are falsy.\<close>

fun truthy :: "jsstring js_opt \<Rightarrow> bool" where
  "truthy (Val s) = (s \<noteq> [])"
| "truthy _ = False"

text \<open>\<open>x || d\<close> for an optional string \<open>x\<close> and a string \<open>d\<close>.\<close>

definition or_else :: "jsstring js_opt \<Rightarrow> jsstring \<Rightarrow> jsstring" where
  "or_else x d = (if truthy x then tpl x else d)"

text \<open>
  \<open>String.prototype.trim\<close> removes WhiteSpace and LineTerminator code points from both
  ends (ECMAScript, TrimString); all of them are single code units.
\<close>

definition isWhiteSpace :: "16 word \<Rightarrow> bool" where
  "isWhiteSpace c \<longleftrightarrow>
     c \<in> {0x0009, 0x000A, 0x000B, 0x000C, 0x000D, 0x0020, 0x00A0, 0x1680,
          0x2000, 0x2001, 0x2002, 0x2003, 0x2004, 0x2005, 0x2006, 0x2007,
          0x2008, 0x2009, 0x200A, 0x2028, 0x2029, 0x202F, 0x205F, 0x3000, 0xFEFF}"

definition trim :: "jsstring \<Rightarrow> jsstring" where
  "trim s = rev (dropWhile isWhiteSpace (rev (dropWhile isWhiteSpace s)))"

text \<open>\<open>String.prototype.startsWith\<close>.\<close>

definition startsWith :: "jsstring \<Rightarrow> jsstring \<Rightarrow> bool" where
  "startsWith s p \<longleftrightarrow> take (length p) s = p"

text \<open>The decimal digits of a non-negative integer, as \<open>${n}\<close> renders it.\<close>

fun decimal :: "nat \<Rightarrow> jsstring" where
  "decimal n =
     (if n < 10 then [of_nat (48 + n)]
      else decimal (n div 10) @ [of_nat (48 + n mod 10)])"

subsection \<open>\<open>parseInt\<close> with no radix argument\<close>

text \<open>
  ECMAScript \<open>parseInt(string)\<close>: skip leading white space, read an optional sign, read
  \<open>0x\<close>/\<open>0X\<close> as the mark of radix 16 (radix 10 otherwise), take the longest prefix of
  digits of that radix; no digit gives \<open>NaN\<close>, modelled as \<open>None\<close>. The result is the
  mathematical integer the digits denote. The source's Number is an IEEE double, which
  holds that integer exactly up to magnitude \<open>2 ^ 53\<close>.
\<close>

definition digitValue :: "16 word \<Rightarrow> nat option" where
  "digitValue c =
     (if 0x30 \<le> c \<and> c \<le> 0x39 then Some (unat c - 48)
      else if 0x61 \<le> c \<and> c \<le> 0x7A then Some (unat c - 87)
      else if 0x41 \<le> c \<and> c \<le> 0x5A then Some (unat c - 55)
      else None)"

definition isRadixDigit :: "nat \<Rightarrow> 16 word \<Rightarrow> bool" where
  "isRadixDigit R c = (case digitValue c of Some v \<Rightarrow> v < R | None \<Rightarrow> False)"

definition mathInt :: "nat \<Rightarrow> jsstring \<Rightarrow> nat" where
  "mathInt R Z = foldl (\<lambda>a c. a * R + (case digitValue c of Some v \<Rightarrow> v | None \<Rightarrow> 0)) 0 Z"

definition parseInt :: "jsstring \<Rightarrow> int option" where
  "parseInt inputString =
     (let S = dropWhile isWhiteSpace inputString;
          sign = (if take 1 S = [0x2D] then - 1 else 1);
          S1 = (if take 1 S = [0x2B] \<or> take 1 S = [0x2D] then drop 1 S else S);
          hex = (take 2 S1 = [0x30, 0x78] \<or> take 2 S1 = [0x30, 0x58]);
          R = (if hex then 16 else 10);
          S2 = (if hex then drop 2 S1 else S1);
          Z = takeWhile (isRadixDigit R) S2
      in if Z = [] then None else Some (sign * int (mathInt R Z)))"

subsection \<open>\<open>Number.prototype.toFixed\<close>\<close>

text \<open>
  \<open>x.toFixed(f)\<close> for a finite \<open>x\<close> of magnitude below \<open>10 ^ 21\<close>: the sign is split off,
  \<open>n\<close> is the integer for which \<open>n / 10 ^ f\<close> is nearest to \<open>x\<close> (the larger one of two),
  and its digits are printed with the point before the last \<open>f\<close> of them, padded with
  zeros on the left up to \<open>f + 1\<close> digits. Numbers are modelled by their exact value.
\<close>

definition roundTo :: "rat \<Rightarrow> nat \<Rightarrow> nat" where
  "roundTo x f = nat \<lfloor>\<bar>x\<bar> * 10 ^ f + 1 / 2\<rfloor>"

definition toFixed :: "rat \<Rightarrow> nat \<Rightarrow> jsstring" where
  "toFixed x f =
     (let s = (if x < 0 then [0x2D] else []);
          m = decimal (roundTo x f);
          m' = (if f \<noteq> 0 \<and> length m \<le> f then replicate (f + 1 - length m) 0x30 @ m else m);
          k = length m'
      in if f \<noteq> 0 then s @ take (k - f) m' @ [0x2E] @ drop (k - f) m' else s @ m')"

section \<open>Utility functions\<close>

text \<open>
  A thrown value: an \<open>Error\<close> object with its message, or any other value, kept as the
  string that \<open>String(error)\<close> gives for it.
\<close>

datatype thrown = Error jsstring | Other jsstring

text \<open>\<open>formatError\<close>; the cross mark is U+274C.\<close>

fun formatError :: "thrown \<Rightarrow> jsstring" where
  "formatError (Error message) = [0x274C] @ js '' Error: '' @ message"
| "formatError (Other str) = [0x274C] @ js '' Error: '' @ str"

text \<open>\<open>validateRequired(value, name)\<close>, \<open>value: string | undefined\<close>.\<close>

definition validateRequired :: "jsstring option \<Rightarrow> jsstring \<Rightarrow> thrown + jsstring" where
  "validateRequired v nm =
     (case v of
        None \<Rightarrow> Inl (Error (nm @ js '' is required''))
      | Some s \<Rightarrow>
          if s = [] \<or> trim s = [] then Inl (Error (nm @ js '' is required''))
          else Inr (trim s))"

text \<open>
  \<open>formatFileSize\<close>. The loop divides by 1024 while the value is at least 1024 and a
  larger unit is left; each division is exact, in the source as here.
\<close>

definition units :: "jsstring list" where
  "units = [js ''B'', js ''KB'', js ''MB'', js ''GB'', js ''TB'']"

function scale :: "rat \<Rightarrow> nat \<Rightarrow> rat \<times> nat" where
  "scale fileSize unitIndex =
     (if fileSize \<ge> 1024 \<and> unitIndex < length units - 1
      then scale (fileSize / 1024) (unitIndex + 1)
      else (fileSize, unitIndex))"
  by pat_completeness auto
termination
  by (relation "measure (\<lambda>(fileSize, unitIndex). length units - 1 - unitIndex)") auto

definition formatFileSize :: "jsstring js_opt \<Rightarrow> jsstring" where
  "formatFileSize bytes =
     (if \<not> truthy bytes then js ''N/A''
      else case parseInt (tpl bytes) of
             None \<Rightarrow> js ''N/A''
           | Some size' \<Rightarrow>
               (case scale (of_int size') 0 of
                  (fileSize, unitIndex) \<Rightarrow> toFixed fileSize 2 @ js '' '' @ units ! unitIndex))"

text \<open>
  The page size of \<open>listFiles\<close> and \<open>searchFiles\<close>:
  \<open>Math.min(Math.max(parseInt(pageSize) || 10, 1), 100)\<close>; \<open>NaN\<close> and \<open>0\<close> are falsy.
  Rounding a large integer to a double changes neither whether it is 0 nor on which side
  of 1 and of 100 it lies, so the exact integer gives the value the source computes.
\<close>

definition pageSizeNum :: "jsstring \<Rightarrow> int" where
  "pageSizeNum pageSize =
     min (max (case parseInt pageSize of
                 None \<Rightarrow> 10
               | Some n \<Rightarrow> if n = 0 then 10 else n) 1) 100"


text \<open>
  \<open>formatDate\<close>: \<open>new Date(dateString).toLocaleString()\<close> depends on the locale and the
  time zone of the host, so the rendering is a parameter.
\<close>

definition formatDate :: "(jsstring \<Rightarrow> jsstring) \<Rightarrow> jsstring js_opt \<Rightarrow> jsstring" where
  "formatDate toLocaleString dateString =
     (if \<not> truthy dateString then js ''N/A'' else toLocaleString (tpl dateString))"

section \<open>The remote storage client\<close>

text \<open>
  The part of the Drive schema the handlers read. Every field may be absent or null.
\<close>

record schema_user =
  displayName :: "jsstring js_opt"
  emailAddress :: "jsstring js_opt"

record schema_file =
  file_id :: "jsstring js_opt"
  name :: "jsstring js_opt"
  mimeType :: "jsstring js_opt"
  file_size :: "jsstring js_opt"
  createdTime :: "jsstring js_opt"
  modifiedTime :: "jsstring js_opt"
  owners :: "schema_user list js_opt"
  webViewLink :: "jsstring js_opt"
  webContentLink :: "jsstring js_opt"
  description :: "jsstring js_opt"
  shared :: "bool js_opt"

text \<open>
  The requests of the Drive client, with the parameters the handlers pass:
  \<^item> \<open>FilesList pageSize q fields orderBy\<close> is \<open>drive.files.list\<close>;
  \<^item> \<open>FilesGet fileId fields alt\<close> is \<open>drive.files.get\<close>;
  \<^item> \<open>FilesCreate name mimeType parents media fields\<close> is \<open>drive.files.create\<close>, the
    first three being the request body and \<open>media\<close> the pair of a MIME type and a body;
  \<^item> \<open>FilesExport fileId mimeType\<close> is \<open>drive.files.export\<close>;
  \<^item> \<open>PermissionsCreate fileId type role emailAddress fields\<close> is
    \<open>drive.permissions.create\<close>;
  \<^item> \<open>FilesUpdate fileId trashed\<close> is \<open>drive.files.update\<close> with the request body
    \<open>{trashed}\<close>;
  \<^item> \<open>FilesDelete fileId\<close> is \<open>drive.files.delete\<close>, the permanent deletion, which the
    client offers and no handler calls.
\<close>

datatype request =
    FilesList int jsstring jsstring jsstring
  | FilesGet jsstring "jsstring option" "jsstring option"
  | FilesCreate jsstring "jsstring option" "jsstring list option"
      "(jsstring \<times> jsstring) option" jsstring
  | FilesExport jsstring jsstring
  | PermissionsCreate jsstring jsstring jsstring jsstring jsstring
  | FilesUpdate jsstring bool
  | FilesDelete jsstring

text \<open>
  The service behind the client is a parameter: each method maps a request and the state
  \<open>'w\<close> of the remote side to \<open>response.data\<close> or a thrown value, and to the next state.
  \<open>files_get\<close> answers a metadata request, \<open>files_get_media\<close> a request with
  \<open>alt: "media"\<close>, whose data is the content.
\<close>

record 'w drive =
  files_list :: "request \<Rightarrow> 'w \<Rightarrow> (thrown + schema_file list js_opt) \<times> 'w"
  files_get :: "request \<Rightarrow> 'w \<Rightarrow> (thrown + schema_file) \<times> 'w"
  files_get_media :: "request \<Rightarrow> 'w \<Rightarrow> (thrown + jsstring) \<times> 'w"
  files_create :: "request \<Rightarrow> 'w \<Rightarrow> (thrown + schema_file) \<times> 'w"
  files_export :: "request \<Rightarrow> 'w \<Rightarrow> (thrown + jsstring) \<times> 'w"
  permissions_create :: "request \<Rightarrow> 'w \<Rightarrow> (thrown + jsstring js_opt) \<times> 'w"
  files_update :: "request \<Rightarrow> 'w \<Rightarrow> (thrown + schema_file) \<times> 'w"

text \<open>
  The state a handler runs in: the requests issued so far, in order, and the state of the
  remote side. An awaited call appends its request and moves the remote state.
\<close>

type_synonym 'w state = "request list \<times> 'w"

definition call ::
  "(request \<Rightarrow> 'w \<Rightarrow> (thrown + 'a) \<times> 'w) \<Rightarrow> request \<Rightarrow> 'w state \<Rightarrow> (thrown + 'a) \<times> 'w state" where
  "call method req st =
     (case st of (issued, w) \<Rightarrow>
        (case method req w of (r, w') \<Rightarrow> (r, (issued @ [req], w'))))"

text \<open>
  The configuration of the process: the three secrets read from the environment
  (\<open>|| ""\<close> makes an unset one empty), the service, and the host's date rendering.
\<close>

record 'w env =
  CLIENT_ID :: jsstring
  CLIENT_SECRET :: jsstring
  REFRESH_TOKEN :: jsstring
  service :: "'w drive"
  toLocaleString :: "jsstring \<Rightarrow> jsstring"

text \<open>\<open>getDriveClient\<close>: building the client issues no request.\<close>

definition missing_credentials :: jsstring where
  "missing_credentials = js ''Missing Google Drive credentials. Set GOOGLE_CLIENT_ID, GOOGLE_CLIENT_SECRET, and GOOGLE_REFRESH_TOKEN''"

definition getDriveClient :: "'w env \<Rightarrow> thrown + 'w drive" where
  "getDriveClient env =
     (if CLIENT_ID env = [] \<or> CLIENT_SECRET env = [] \<or> REFRESH_TOKEN env = []
      then Inl (Error missing_credentials)
      else Inr (service env))"

section \<open>Tool implementations\<close>

text \<open>
  Each handler is a \<open>try\<close> block and a \<open>catch\<close> that returns \<open>formatError(error)\<close>. The
  block is modelled by a function \<open>..._try\<close> whose result is the returned text or the
  thrown value; \<open>catch_format\<close> is the \<open>catch\<close>. Logging writes to stderr only and is
  left out.
\<close>

definition catch_format :: "(thrown + jsstring) \<times> 's \<Rightarrow> jsstring \<times> 's" where
  "catch_format r =
     (case r of (Inl error, st) \<Rightarrow> (formatError error, st) | (Inr result, st) \<Rightarrow> (result, st))"

text \<open>\<open>!files || files.length === 0\<close> holds exactly when this list is empty.\<close>

fun files_of :: "schema_file list js_opt \<Rightarrow> schema_file list" where
  "files_of (Val fs) = fs"
| "files_of _ = []"

text \<open>
  The body of \<open>files.forEach((file, index) => ...)\<close>, the same text in \<open>listFiles\<close> and
  \<open>searchFiles\<close>. The folder icon is U+1F4C1, the page icon U+1F4C4.
\<close>

definition entry :: "(jsstring \<Rightarrow> jsstring) \<Rightarrow> schema_file \<Rightarrow> nat \<Rightarrow> jsstring" where
  "entry loc f index =
     (let isFolder = (mimeType f = Val (js ''application/vnd.google-apps.folder''));
          icon = (if isFolder then [0xD83D, 0xDCC1] else [0xD83D, 0xDCC4])
      in decimal (index + 1) @ js ''. '' @ icon @ js '' '' @ tpl (name f) @ js ''\<newline>''
         @ js ''   ID: '' @ tpl (file_id f) @ js ''\<newline>''
         @ js ''   Type: '' @ tpl (mimeType f) @ js ''\<newline>''
         @ js ''   Size: '' @ formatFileSize (file_size f) @ js ''\<newline>''
         @ js ''   Modified: '' @ formatDate loc (modifiedTime f) @ js ''\<newline>''
         @ (if truthy (webViewLink f)
            then js ''   Link: '' @ tpl (webViewLink f) @ js ''\<newline>'' else [])
         @ js ''\<newline>'')"

fun forEach_entry :: "(jsstring \<Rightarrow> jsstring) \<Rightarrow> schema_file list \<Rightarrow> nat \<Rightarrow> jsstring" where
  "forEach_entry loc [] index = []"
| "forEach_entry loc (f # fs) index = entry loc f index @ forEach_entry loc fs (index + 1)"

definition listFiles_try ::
  "'w env \<Rightarrow> jsstring \<Rightarrow> jsstring \<Rightarrow> 'w state \<Rightarrow> (thrown + jsstring) \<times> 'w state" where
  "listFiles_try env folderId pageSize st =
     (case getDriveClient env of
        Inl error \<Rightarrow> (Inl error, st)
      | Inr drive \<Rightarrow>
          (let query = js ''trashed = false'' @
                 (if folderId \<noteq> [] \<and> trim folderId \<noteq> []
                  then js '' and '' @ [0x27] @ trim folderId @ [0x27] @ js '' in parents''
                  else [])
           in case call (files_list drive)
                     (FilesList (pageSizeNum pageSize) query
                        (js ''files(id, name, mimeType, size, modifiedTime, webViewLink, iconLink)'')
                        (js ''modifiedTime desc'')) st of
                (Inl error, st') \<Rightarrow> (Inl error, st')
              | (Inr files, st') \<Rightarrow>
                  (if files_of files = []
                   then (Inr ([0xD83D, 0xDCC1] @ js '' No files found''), st')
                   else (Inr ([0xD83D, 0xDCC1] @ js '' Found '' @ decimal (length (files_of files))
                              @ js '' file(s):\<newline>\<newline>''
                              @ forEach_entry (toLocaleString env) (files_of files) 0), st'))))"

definition listFiles :: "'w env \<Rightarrow> jsstring \<Rightarrow> jsstring \<Rightarrow> 'w state \<Rightarrow> jsstring \<times> 'w state" where
  "listFiles env folderId pageSize st = catch_format (listFiles_try env folderId pageSize st)"

definition searchFiles_try ::
  "'w env \<Rightarrow> jsstring \<Rightarrow> jsstring \<Rightarrow> 'w state \<Rightarrow> (thrown + jsstring) \<times> 'w state" where
  "searchFiles_try env query pageSize st =
     (case validateRequired (Some query) (js ''query'') of
        Inl error \<Rightarrow> (Inl error, st)
      | Inr searchQuery \<Rightarrow>
     (case getDriveClient env of
        Inl error \<Rightarrow> (Inl error, st)
      | Inr drive \<Rightarrow>
          (let driveQuery = js ''name contains '' @ [0x27] @ searchQuery @ [0x27]
                            @ js '' and trashed = false''
           in case call (files_list drive)
                     (FilesList (pageSizeNum pageSize) driveQuery
                        (js ''files(id, name, mimeType, size, modifiedTime, webViewLink)'')
                        (js ''modifiedTime desc'')) st of
                (Inl error, st') \<Rightarrow> (Inl error, st')
              | (Inr files, st') \<Rightarrow>
                  (if files_of files = []
                   then (Inr ([0xD83D, 0xDD0D] @ js '' No files found matching '' @ [0x22]
                              @ searchQuery @ [0x22]), st')
                   else (Inr ([0xD83D, 0xDD0D] @ js '' Found '' @ decimal (length (files_of files))
                              @ js '' file(s) matching '' @ [0x22] @ searchQuery @ [0x22]
                              @ js '':\<newline>\<newline>''
                              @ forEach_entry (toLocaleString env) (files_of files) 0), st')))))"

definition searchFiles :: "'w env \<Rightarrow> jsstring \<Rightarrow> jsstring \<Rightarrow> 'w state \<Rightarrow> jsstring \<times> 'w state" where
  "searchFiles env query pageSize st = catch_format (searchFiles_try env query pageSize st)"

text \<open>
  \<open>getFileMetadata\<close>. The owner line shows \<open>displayName || emailAddress\<close> of the first
  owner.
\<close>

definition owner_line :: "schema_file \<Rightarrow> jsstring" where
  "owner_line f =
     (case owners f of
        Val (owner # rest) \<Rightarrow>
          js ''Owner: ''
          @ (if truthy (displayName owner) then tpl (displayName owner)
             else tpl (emailAddress owner))
          @ js ''\<newline>''
      | _ \<Rightarrow> [])"

definition getFileMetadata_try ::
  "'w env \<Rightarrow> jsstring \<Rightarrow> 'w state \<Rightarrow> (thrown + jsstring) \<times> 'w state" where
  "getFileMetadata_try env fileId st =
     (case validateRequired (Some fileId) (js ''fileId'') of
        Inl error \<Rightarrow> (Inl error, st)
      | Inr validFileId \<Rightarrow>
     (case getDriveClient env of
        Inl error \<Rightarrow> (Inl error, st)
      | Inr drive \<Rightarrow>
     (case call (files_get drive) (FilesGet validFileId (Some (js ''*'')) None) st of
        (Inl error, st') \<Rightarrow> (Inl error, st')
      | (Inr f, st') \<Rightarrow>
          (Inr ([0xD83D, 0xDCC4] @ js '' File Metadata:\<newline>\<newline>''
                @ js ''Name: '' @ tpl (name f) @ js ''\<newline>''
                @ js ''ID: '' @ tpl (file_id f) @ js ''\<newline>''
                @ js ''Type: '' @ tpl (mimeType f) @ js ''\<newline>''
                @ js ''Size: '' @ formatFileSize (file_size f) @ js ''\<newline>''
                @ js ''Created: '' @ formatDate (toLocaleString env) (createdTime f) @ js ''\<newline>''
                @ js ''Modified: '' @ formatDate (toLocaleString env) (modifiedTime f) @ js ''\<newline>''
                @ owner_line f
                @ (if truthy (webViewLink f)
                   then js ''View Link: '' @ tpl (webViewLink f) @ js ''\<newline>'' else [])
                @ (if truthy (webContentLink f)
                   then js ''Download Link: '' @ tpl (webContentLink f) @ js ''\<newline>'' else [])
                @ (if truthy (description f)
                   then js ''Description: '' @ tpl (description f) @ js ''\<newline>'' else [])
                @ (if shared f = Val True then js ''Shared: Yes\<newline>'' else [])), st'))))"

definition getFileMetadata :: "'w env \<Rightarrow> jsstring \<Rightarrow> 'w state \<Rightarrow> jsstring \<times> 'w state" where
  "getFileMetadata env fileId st = catch_format (getFileMetadata_try env fileId st)"

text \<open>\<open>createFolder\<close> and \<open>uploadFile\<close>; the check mark is U+2705.\<close>

definition createFolder_try ::
  "'w env \<Rightarrow> jsstring \<Rightarrow> jsstring \<Rightarrow> 'w state \<Rightarrow> (thrown + jsstring) \<times> 'w state" where
  "createFolder_try env folderName parentFolderId st =
     (case validateRequired (Some folderName) (js ''folderName'') of
        Inl error \<Rightarrow> (Inl error, st)
      | Inr validFolderName \<Rightarrow>
     (case getDriveClient env of
        Inl error \<Rightarrow> (Inl error, st)
      | Inr drive \<Rightarrow>
     (case call (files_create drive)
             (FilesCreate validFolderName (Some (js ''application/vnd.google-apps.folder''))
                (if parentFolderId \<noteq> [] \<and> trim parentFolderId \<noteq> []
                 then Some [trim parentFolderId] else None)
                None (js ''id, name, webViewLink'')) st of
        (Inl error, st') \<Rightarrow> (Inl error, st')
      | (Inr folder, st') \<Rightarrow>
          (Inr ([0x2705] @ js '' Folder created successfully:\<newline>''
                @ js ''Name: '' @ tpl (name folder) @ js ''\<newline>''
                @ js ''ID: '' @ tpl (file_id folder) @ js ''\<newline>''
                @ js ''Link: '' @ or_else (webViewLink folder) (js ''N/A'')), st'))))"

definition createFolder :: "'w env \<Rightarrow> jsstring \<Rightarrow> jsstring \<Rightarrow> 'w state \<Rightarrow> jsstring \<times> 'w state" where
  "createFolder env folderName parentFolderId st =
     catch_format (createFolder_try env folderName parentFolderId st)"

definition uploadFile_try ::
  "'w env \<Rightarrow> jsstring \<Rightarrow> jsstring \<Rightarrow> jsstring \<Rightarrow> jsstring \<Rightarrow> 'w state
     \<Rightarrow> (thrown + jsstring) \<times> 'w state" where
  "uploadFile_try env fileName content mimeType' folderId st =
     (case validateRequired (Some fileName) (js ''fileName'') of
        Inl error \<Rightarrow> (Inl error, st)
      | Inr validFileName \<Rightarrow>
     (case validateRequired (Some content) (js ''content'') of
        Inl error \<Rightarrow> (Inl error, st)
      | Inr validContent \<Rightarrow>
     (case getDriveClient env of
        Inl error \<Rightarrow> (Inl error, st)
      | Inr drive \<Rightarrow>
     (case call (files_create drive)
             (FilesCreate validFileName None
                (if folderId \<noteq> [] \<and> trim folderId \<noteq> [] then Some [trim folderId] else None)
                (Some (if mimeType' \<noteq> [] then mimeType' else js ''text/plain'', validContent))
                (js ''id, name, webViewLink, size'')) st of
        (Inl error, st') \<Rightarrow> (Inl error, st')
      | (Inr f, st') \<Rightarrow>
          (Inr ([0x2705] @ js '' File uploaded successfully:\<newline>''
                @ js ''Name: '' @ tpl (name f) @ js ''\<newline>''
                @ js ''ID: '' @ tpl (file_id f) @ js ''\<newline>''
                @ js ''Size: '' @ formatFileSize (file_size f) @ js ''\<newline>''
                @ js ''Link: '' @ or_else (webViewLink f) (js ''N/A'')), st')))))"

definition uploadFile ::
  "'w env \<Rightarrow> jsstring \<Rightarrow> jsstring \<Rightarrow> jsstring \<Rightarrow> jsstring \<Rightarrow> 'w state \<Rightarrow> jsstring \<times> 'w state" where
  "uploadFile env fileName content mimeType' folderId st =
     catch_format (uploadFile_try env fileName content mimeType' folderId st)"

text \<open>
  \<open>downloadFile\<close>. \<open>mimeType?.startsWith(...)\<close> is false for an absent or null type. The
  inbox icon is U+1F4E5.
\<close>

definition exportMimeType :: "jsstring \<Rightarrow> jsstring" where
  "exportMimeType mt =
     (if mt = js ''application/vnd.google-apps.document'' then js ''text/plain''
      else if mt = js ''application/vnd.google-apps.spreadsheet'' then js ''text/csv''
      else if mt = js ''application/vnd.google-apps.presentation'' then js ''text/plain''
      else js ''text/plain'')"

fun is_workspace :: "jsstring js_opt \<Rightarrow> bool" where
  "is_workspace (Val mt) = startsWith mt (js ''application/vnd.google-apps.'')"
| "is_workspace _ = False"

definition downloadFile_try ::
  "'w env \<Rightarrow> jsstring \<Rightarrow> 'w state \<Rightarrow> (thrown + jsstring) \<times> 'w state" where
  "downloadFile_try env fileId st =
     (case validateRequired (Some fileId) (js ''fileId'') of
        Inl error \<Rightarrow> (Inl error, st)
      | Inr validFileId \<Rightarrow>
     (case getDriveClient env of
        Inl error \<Rightarrow> (Inl error, st)
      | Inr drive \<Rightarrow>
     (case call (files_get drive)
             (FilesGet validFileId (Some (js ''name, mimeType, size'')) None) st of
        (Inl error, st') \<Rightarrow> (Inl error, st')
      | (Inr meta, st') \<Rightarrow>
          (if is_workspace (mimeType meta)
           then
             (case call (files_export drive)
                     (FilesExport validFileId (exportMimeType (tpl (mimeType meta)))) st' of
                (Inl error, st'') \<Rightarrow> (Inl error, st'')
              | (Inr data, st'') \<Rightarrow>
                  (Inr ([0xD83D, 0xDCE5] @ js '' File: '' @ tpl (name meta) @ js ''\<newline>''
                        @ js ''Type: '' @ tpl (mimeType meta) @ js ''\<newline>''
                        @ js ''Content:\<newline>\<newline>'' @ data), st''))
           else
             (case call (files_get_media drive)
                     (FilesGet validFileId None (Some (js ''media''))) st' of
                (Inl error, st'') \<Rightarrow> (Inl error, st'')
              | (Inr data, st'') \<Rightarrow>
                  (Inr ([0xD83D, 0xDCE5] @ js '' File: '' @ tpl (name meta) @ js ''\<newline>''
                        @ js ''Type: '' @ tpl (mimeType meta) @ js ''\<newline>''
                        @ js ''Size: '' @ formatFileSize (file_size meta) @ js ''\<newline>''
                        @ js ''Content:\<newline>\<newline>'' @ data), st''))))))"

definition downloadFile :: "'w env \<Rightarrow> jsstring \<Rightarrow> 'w state \<Rightarrow> jsstring \<times> 'w state" where
  "downloadFile env fileId st = catch_format (downloadFile_try env fileId st)"

text \<open>\<open>shareFile\<close>: a role outside \<open>validRoles\<close> is replaced by \<open>reader\<close>.\<close>

definition validRoles :: "jsstring list" where
  "validRoles = [js ''reader'', js ''writer'', js ''commenter'']"

definition shareFile_try ::
  "'w env \<Rightarrow> jsstring \<Rightarrow> jsstring \<Rightarrow> jsstring \<Rightarrow> 'w state \<Rightarrow> (thrown + jsstring) \<times> 'w state" where
  "shareFile_try env fileId email role st =
     (case validateRequired (Some fileId) (js ''fileId'') of
        Inl error \<Rightarrow> (Inl error, st)
      | Inr validFileId \<Rightarrow>
     (case validateRequired (Some email) (js ''email'') of
        Inl error \<Rightarrow> (Inl error, st)
      | Inr validEmail \<Rightarrow>
     (case getDriveClient env of
        Inl error \<Rightarrow> (Inl error, st)
      | Inr drive \<Rightarrow>
          (let validRole = (if role \<in> set validRoles then role else js ''reader'')
           in case call (permissions_create drive)
                     (PermissionsCreate validFileId (js ''user'') validRole validEmail (js ''id'')) st of
                (Inl error, st') \<Rightarrow> (Inl error, st')
              | (Inr permission, st') \<Rightarrow>
             (case call (files_get drive)
                     (FilesGet validFileId (Some (js ''name, webViewLink'')) None) st' of
                (Inl error, st'') \<Rightarrow> (Inl error, st'')
              | (Inr fileInfo, st'') \<Rightarrow>
                  (Inr ([0x2705] @ js '' File shared successfully:\<newline>''
                        @ js ''File: '' @ tpl (name fileInfo) @ js ''\<newline>''
                        @ js ''Shared with: '' @ validEmail @ js ''\<newline>''
                        @ js ''Permission: '' @ validRole @ js ''\<newline>''
                        @ js ''Link: '' @ or_else (webViewLink fileInfo) (js ''N/A'')), st''))))))"

definition shareFile ::
  "'w env \<Rightarrow> jsstring \<Rightarrow> jsstring \<Rightarrow> jsstring \<Rightarrow> 'w state \<Rightarrow> jsstring \<times> 'w state" where
  "shareFile env fileId email role st = catch_format (shareFile_try env fileId email role st)"

text \<open>\<open>deleteFile\<close>: the name is fetched, then the file is moved to the trash.\<close>

definition deleteFile_try ::
  "'w env \<Rightarrow> jsstring \<Rightarrow> 'w state \<Rightarrow> (thrown + jsstring) \<times> 'w state" where
  "deleteFile_try env fileId st =
     (case validateRequired (Some fileId) (js ''fileId'') of
        Inl error \<Rightarrow> (Inl error, st)
      | Inr validFileId \<Rightarrow>
     (case getDriveClient env of
        Inl error \<Rightarrow> (Inl error, st)
      | Inr drive \<Rightarrow>
     (case call (files_get drive) (FilesGet validFileId (Some (js ''name'')) None) st of
        (Inl error, st') \<Rightarrow> (Inl error, st')
      | (Inr fileInfo, st') \<Rightarrow>
     (case call (files_update drive) (FilesUpdate validFileId True) st' of
        (Inl error, st'') \<Rightarrow> (Inl error, st'')
      | (Inr updated, st'') \<Rightarrow>
          (Inr ([0x2705] @ js '' File moved to trash:\<newline>''
                @ js ''Name: '' @ tpl (name fileInfo) @ js ''\<newline>''
                @ js ''ID: '' @ validFileId), st'')))))"

definition deleteFile :: "'w env \<Rightarrow> jsstring \<Rightarrow> 'w state \<Rightarrow> jsstring \<times> 'w state" where
  "deleteFile env fileId st = catch_format (deleteFile_try env fileId st)"

section \<open>Tool registry and dispatcher\<close>

text \<open>\<open>TOOLS\<close>: for each tool its name, the names of its properties and its required ones.\<close>

definition TOOLS :: "(jsstring \<times> jsstring list \<times> jsstring list) list" where
  "TOOLS =
     [(js ''list_files'', [js ''folderId'', js ''pageSize''], []),
      (js ''search_files'', [js ''query'', js ''pageSize''], [js ''query'']),
      (js ''get_file_metadata'', [js ''fileId''], [js ''fileId'']),
      (js ''create_folder'', [js ''folderName'', js ''parentFolderId''], [js ''folderName'']),
      (js ''upload_file'', [js ''fileName'', js ''content'', js ''mimeType'', js ''folderId''],
         [js ''fileName'', js ''content'']),
      (js ''download_file'', [js ''fileId''], [js ''fileId'']),
      (js ''share_file'', [js ''fileId'', js ''email'', js ''role''], [js ''fileId'', js ''email'']),
      (js ''delete_file'', [js ''fileId''], [js ''fileId''])]"

text \<open>
  The arguments of a call: absent, or a mapping from property names to strings (the
  schema declares every property a string). \<open>arg args k d\<close> is \<open>(args?.k as string) || d\<close>.
\<close>

type_synonym arguments = "(jsstring \<rightharpoonup> jsstring) option"

definition arg :: "arguments \<Rightarrow> jsstring \<Rightarrow> jsstring \<Rightarrow> jsstring" where
  "arg args k d =
     (case args of
        None \<Rightarrow> d
      | Some m \<Rightarrow> (case m k of None \<Rightarrow> d | Some v \<Rightarrow> if v = [] then d else v))"

text \<open>The result of a call; \<open>isError\<close> is \<open>None\<close> where the returned object has no such key.\<close>

record tool_result =
  content_text :: jsstring
  isError :: "bool option"

definition text_result :: "jsstring \<times> 's \<Rightarrow> (thrown + tool_result) \<times> 's" where
  "text_result r =
     (case r of (t, st) \<Rightarrow> (Inr \<lparr>content_text = t, isError = None\<rparr>, st))"

text \<open>The \<open>try\<close> block of the \<open>CallToolRequestSchema\<close> handler: the \<open>switch\<close> on the name.\<close>

definition call_tool_try ::
  "'w env \<Rightarrow> jsstring \<Rightarrow> arguments \<Rightarrow> 'w state \<Rightarrow> (thrown + tool_result) \<times> 'w state" where
  "call_tool_try env nm args st =
     (if nm = js ''list_files'' then
        text_result (listFiles env (arg args (js ''folderId'') []) (arg args (js ''pageSize'') (js ''10'')) st)
      else if nm = js ''search_files'' then
        text_result (searchFiles env (arg args (js ''query'') []) (arg args (js ''pageSize'') (js ''10'')) st)
      else if nm = js ''get_file_metadata'' then
        text_result (getFileMetadata env (arg args (js ''fileId'') []) st)
      else if nm = js ''create_folder'' then
        text_result (createFolder env (arg args (js ''folderName'') [])
                       (arg args (js ''parentFolderId'') []) st)
      else if nm = js ''upload_file'' then
        text_result (uploadFile env (arg args (js ''fileName'') []) (arg args (js ''content'') [])
                       (arg args (js ''mimeType'') (js ''text/plain''))
                       (arg args (js ''folderId'') []) st)
      else if nm = js ''download_file'' then
        text_result (downloadFile env (arg args (js ''fileId'') []) st)
      else if nm = js ''share_file'' then
        text_result (shareFile env (arg args (js ''fileId'') []) (arg args (js ''email'') [])
                       (arg args (js ''role'') (js ''reader'')) st)
      else if nm = js ''delete_file'' then
        text_result (deleteFile env (arg args (js ''fileId'') []) st)
      else (Inl (Error (js ''Unknown tool: '' @ nm)), st))"

text \<open>The handler with its \<open>catch\<close>, which alone sets \<open>isError: true\<close>.\<close>

definition call_tool ::
  "'w env \<Rightarrow> jsstring \<Rightarrow> arguments \<Rightarrow> 'w state \<Rightarrow> tool_result \<times> 'w state" where
  "call_tool env nm args st =
     (case call_tool_try env nm args st of
        (Inl error, st') \<Rightarrow> (\<lparr>content_text = formatError error, isError = Some True\<rparr>, st')
      | (Inr result, st') \<Rightarrow> (result, st'))"

section \<open>Notions used to state the properties\<close>

text \<open>The requests that change the remote side; listing, reading and exporting do not.\<close>

fun mutating :: "request \<Rightarrow> bool" where
  "mutating (FilesCreate n m p b f) = True"
| "mutating (PermissionsCreate i t r e f) = True"
| "mutating (FilesUpdate i t) = True"
| "mutating (FilesDelete i) = True"
| "mutating _ = False"


text \<open>
  A sample remote side for concrete runs: its state counts the requests served; every
  method answers with the same file, content and permission id, or every method fails.
\<close>

definition sample_file :: schema_file where
  "sample_file =
     \<lparr>file_id = Val (js ''1AbC''), name = Val (js ''notes.txt''),
      mimeType = Val (js ''text/plain''), file_size = Val (js ''1536''),
      createdTime = Undefined, modifiedTime = Undefined, owners = Undefined,
      webViewLink = Undefined, webContentLink = Undefined, description = Undefined,
      shared = Undefined\<rparr>"

definition sample_service :: "schema_file \<Rightarrow> nat drive" where
  "sample_service f =
     \<lparr>files_list = (\<lambda>req w. (Inr (Val [f]), w + 1)),
      files_get = (\<lambda>req w. (Inr f, w + 1)),
      files_get_media = (\<lambda>req w. (Inr (js ''hello''), w + 1)),
      files_create = (\<lambda>req w. (Inr f, w + 1)),
      files_export = (\<lambda>req w. (Inr (js ''a,b''), w + 1)),
      permissions_create = (\<lambda>req w. (Inr (Val (js ''perm-7'')), w + 1)),
      files_update = (\<lambda>req w. (Inr f, w + 1))\<rparr>"

definition failing_service :: "nat drive" where
  "failing_service =
     \<lparr>files_list = (\<lambda>req w. (Inl (Error (js ''File not found'')), w + 1)),
      files_get = (\<lambda>req w. (Inl (Error (js ''File not found'')), w + 1)),
      files_get_media = (\<lambda>req w. (Inl (Error (js ''File not found'')), w + 1)),
      files_create = (\<lambda>req w. (Inl (Error (js ''File not found'')), w + 1)),
      files_export = (\<lambda>req w. (Inl (Error (js ''File not found'')), w + 1)),
      permissions_create = (\<lambda>req w. (Inl (Error (js ''File not found'')), w + 1)),
      files_update = (\<lambda>req w. (Inl (Error (js ''File not found'')), w + 1))\<rparr>"

definition sample_env :: "nat drive \<Rightarrow> nat env" where
  "sample_env d =
     \<lparr>CLIENT_ID = js ''client'', CLIENT_SECRET = js ''secret'', REFRESH_TOKEN = js ''token'',
      service = d, toLocaleString = (\<lambda>s. s)\<rparr>"

definition unconfigured_env :: "nat drive \<Rightarrow> nat env" where
  "unconfigured_env d =
     \<lparr>CLIENT_ID = js ''client'', CLIENT_SECRET = js ''secret'', REFRESH_TOKEN = [],
      service = d, toLocaleString = (\<lambda>s. s)\<rparr>"

section \<open>Basic facts\<close>

declare scale.simps [simp del] decimal.simps [simp del]

lemma unat_of_char: "unat (of_char c :: 16 word) = of_char c"
proof -
  have "(of_char c :: 16 word) = of_nat (of_char c)"
    by (simp add: of_nat_of_char)
  moreover have "(of_char c :: nat) < 2 ^ 16"
  proof -
    have "(of_char c :: nat) < 256" by (rule nat_of_char_less_256)
    also have "(256 :: nat) < 2 ^ 16" by simp
    finally show ?thesis .
  qed
  ultimately show ?thesis
    by (simp add: unat_of_nat)
qed

lemma of_char_word_eq_iff: "(of_char c :: 16 word) = of_char d \<longleftrightarrow> c = d"
proof
  assume "(of_char c :: 16 word) = of_char d"
  then have "unat (of_char c :: 16 word) = unat (of_char d :: 16 word)" by simp
  then show "c = d" by (simp add: unat_of_char)
qed simp

text \<open>Two literals are the same string exactly when they are written the same.\<close>

lemma js_eq_iff [simp]: "js s = js t \<longleftrightarrow> s = t"
proof -
  have "inj (of_char :: char \<Rightarrow> 16 word)"
    by (simp add: inj_on_def of_char_word_eq_iff)
  then show ?thesis
    unfolding js_def by simp
qed

lemma js_append: "js (s @ t) = js s @ js t"
  by (simp add: js_def)

lemma js_eq_Nil [simp]: "js s = [] \<longleftrightarrow> s = []" "[] = js s \<longleftrightarrow> s = []"
  by (auto simp add: js_def)

lemma trim_Nil [simp]: "trim [] = []"
  by (simp add: trim_def)

lemma validateRequired_blank:
  "trim s = [] \<Longrightarrow> validateRequired (Some s) nm = Inl (Error (nm @ js '' is required''))"
  by (simp add: validateRequired_def)

lemma validateRequired_ok:
  "trim s \<noteq> [] \<Longrightarrow> validateRequired (Some s) nm = Inr (trim s)"
  by (auto simp add: validateRequired_def)

lemma getDriveClient_missing:
  "CLIENT_ID env = [] \<or> CLIENT_SECRET env = [] \<or> REFRESH_TOKEN env = [] \<Longrightarrow>
   getDriveClient env = Inl (Error missing_credentials)"
  by (simp add: getDriveClient_def)

lemma getDriveClient_sample [simp]: "getDriveClient (sample_env d) = Inr d"
  by (simp add: getDriveClient_def sample_env_def)

lemma getDriveClient_unconfigured [simp]:
  "getDriveClient (unconfigured_env d) = Inl (Error missing_credentials)"
  by (simp add: getDriveClient_def unconfigured_env_def)

section \<open>The dispatcher on each tool name\<close>


lemma call_tool_search_files:
  "call_tool env (js ''search_files'') args st =
     (case searchFiles env (arg args (js ''query'') []) (arg args (js ''pageSize'') (js ''10'')) st of
        (t, st') \<Rightarrow> (\<lparr>content_text = t, isError = None\<rparr>, st'))"
  by (simp add: call_tool_def call_tool_try_def text_result_def split: prod.splits)







section \<open>Sample strings\<close>

text \<open>The strings of the concrete runs have no white space at their ends.\<close>

lemma trim_1AbC: "trim (js ''1AbC'') = js ''1AbC''"
  by (simp add: trim_def js_def isWhiteSpace_def)

lemma trim_email: "trim (js ''ann@example.org'') = js ''ann@example.org''"
  by (simp add: trim_def js_def isWhiteSpace_def)

lemma trim_notes: "trim (js ''notes'') = js ''notes''"
  by (simp add: trim_def js_def isWhiteSpace_def)




section \<open>C6: an empty query fails before any remote call\<close>

lemma searchFiles_blank:
  "trim query = [] \<Longrightarrow>
   searchFiles env query pageSize st = (formatError (Error (js ''query is required'')), st)"
  by (simp add: searchFiles_def searchFiles_try_def validateRequired_blank catch_format_def js_append [symmetric] del: formatError.simps)

text \<open>
  Claim C6. When the \<open>query\<close> argument of \<open>search_files\<close> is empty, absent or made of
  white space only, \<open>searchFiles\<close> and the dispatcher return the validation error as text
  and leave the state as it was: no request is issued, the remote side is untouched. This
  holds for every configuration, also one without credentials, so the validation comes
  before the client is built.
\<close>

theorem search_files_empty_query_fails_first:
  assumes "trim (arg args (js ''query'') []) = []"
  shows "searchFiles env (arg args (js ''query'') []) pageSize st
           = ([0x274C] @ js '' Error: query is required'', st)
         \<and> call_tool env (js ''search_files'') args st
           = (\<lparr>content_text = [0x274C] @ js '' Error: query is required'', isError = None\<rparr>, st)"
  using assms by (simp add: call_tool_search_files searchFiles_blank js_append [symmetric])

theorem search_files_empty_query_fails_first_witness:
  "trim (arg (Some [js ''query'' \<mapsto> [], js ''pageSize'' \<mapsto> js ''5'']) (js ''query'') []) = []
   \<and> call_tool (unconfigured_env failing_service) (js ''search_files'')
        (Some [js ''query'' \<mapsto> [], js ''pageSize'' \<mapsto> js ''5'']) ([], 0)
      = (\<lparr>content_text = [0x274C] @ js '' Error: query is required'', isError = None\<rparr>, ([], 0))"
proof -
  have h: "trim (arg (Some [js ''query'' \<mapsto> [], js ''pageSize'' \<mapsto> js ''5'']) (js ''query'') []) = []"
    by (simp add: arg_def)
  show ?thesis
    using h search_files_empty_query_fails_first [OF h, of "unconfigured_env failing_service" "js ''5''" "([], 0)"]
    by simp
qed

section \<open>C7: the page size sent to \<open>files.list\<close>\<close>

lemmas parseInt_eval =
  parseInt_def js_def isWhiteSpace_def isRadixDigit_def digitValue_def mathInt_def Let_def

lemma pageSizeNum_range: "1 \<le> pageSizeNum pageSize \<and> pageSizeNum pageSize \<le> 100"
  by (simp add: pageSizeNum_def split: option.splits)

lemma pageSizeNum_cases:
  "pageSizeNum pageSize =
     (case parseInt pageSize of
        None \<Rightarrow> 10
      | Some n \<Rightarrow> if n = 0 then 10 else if n < 1 then 1 else if 100 < n then 100 else n)"
  by (simp add: pageSizeNum_def split: option.splits)

lemma listFiles_issues:
  "getDriveClient env = Inr drive \<Longrightarrow>
   \<exists>q fl ob. fst (snd (listFiles env folderId pageSize (issued, w)))
              = issued @ [FilesList (pageSizeNum pageSize) q fl ob]"
  by (simp add: listFiles_def listFiles_try_def catch_format_def call_def Let_def
        split: prod.splits sum.splits)

lemma searchFiles_issues:
  "getDriveClient env = Inr drive \<Longrightarrow> trim query \<noteq> [] \<Longrightarrow>
   \<exists>q fl ob. fst (snd (searchFiles env query pageSize (issued, w)))
              = issued @ [FilesList (pageSizeNum pageSize) q fl ob]"
  by (simp add: searchFiles_def searchFiles_try_def validateRequired_ok catch_format_def call_def
        Let_def split: prod.splits sum.splits)

text \<open>
  Claim C7, amended. The page size \<open>listFiles\<close> and \<open>searchFiles\<close> send is 10 when
  \<open>parseInt\<close> reads no number from the string or reads 0, and otherwise the integer read,
  raised to 1 and lowered to 100; it always lies between 1 and 100. It is the \<open>pageSize\<close>
  of the one \<open>files.list\<close> request the handler issues once the client is built (and, for
  \<open>searchFiles\<close>, the query is not blank).
\<close>

theorem effective_page_size:
  "pageSizeNum pageSize =
     (case parseInt pageSize of
        None \<Rightarrow> 10
      | Some n \<Rightarrow> if n = 0 then 10 else if n < 1 then 1 else if 100 < n then 100 else n)
   \<and> 1 \<le> pageSizeNum pageSize \<and> pageSizeNum pageSize \<le> 100
   \<and> (getDriveClient env = Inr drive \<longrightarrow>
        (\<exists>q fl ob. fst (snd (listFiles env folderId pageSize (issued, w)))
                    = issued @ [FilesList (pageSizeNum pageSize) q fl ob]))
   \<and> (getDriveClient env = Inr drive \<and> trim query \<noteq> [] \<longrightarrow>
        (\<exists>q fl ob. fst (snd (searchFiles env query pageSize (issued, w)))
                    = issued @ [FilesList (pageSizeNum pageSize) q fl ob]))"
  using pageSizeNum_cases [of pageSize] pageSizeNum_range [of pageSize]
    listFiles_issues [of env drive folderId pageSize issued w]
    searchFiles_issues [of env drive query pageSize issued w]
  by blast

lemma parseInt_500: "parseInt (js ''500'') = Some 500"
  by (simp add: parseInt_eval)

theorem effective_page_size_witness:
  "parseInt (js ''500'') = Some 500 \<and> pageSizeNum (js ''500'') = 100
   \<and> (\<exists>q fl ob. fst (snd (listFiles (sample_env (sample_service sample_file)) [] (js ''500'') ([], 0)))
                  = [FilesList 100 q fl ob])
   \<and> (\<exists>q fl ob. fst (snd (searchFiles (sample_env (sample_service sample_file)) (js ''notes'')
                               (js ''500'') ([], 0)))
                  = [FilesList 100 q fl ob])"
  using effective_page_size [of "js ''500''" "sample_env (sample_service sample_file)"
      "sample_service sample_file" "[]" "[]" 0 "js ''notes''"]
  by (auto simp add: parseInt_500 trim_notes)

lemma parseInt_0: "parseInt (js ''0'') = Some 0"
  by (simp add: parseInt_eval)

text \<open>
  Claim C7 as stated fails at the page size \<open>"0"\<close>: it parses to the number 0, whose
  clamping to the interval from 1 to 100 is 1, and the request carries 10.
\<close>

theorem page_size_zero_counterexample:
  "parseInt (js ''0'') = Some 0
   \<and> max 1 (min 100 (0 :: int)) = 1
   \<and> fst (snd (listFiles (sample_env (sample_service sample_file)) [] (js ''0'') ([], 0)))
     = [FilesList 10 (js ''trashed = false'')
          (js ''files(id, name, mimeType, size, modifiedTime, webViewLink, iconLink)'')
          (js ''modifiedTime desc'')]"
  by (simp add: parseInt_0 listFiles_def listFiles_try_def catch_format_def call_def
        pageSizeNum_def sample_service_def split: prod.splits)

section \<open>C2: \<open>formatFileSize\<close>\<close>

subsection \<open>The loop\<close>

lemma scale_step:
  "scale x k = (if 1024 \<le> x \<and> k < 4 then scale (x / 1024) (k + 1) else (x, k))"
  by (subst scale.simps) (simp add: units_def)

lemma scale_0:
  "\<exists>k\<le>4. scale x 0 = (x / 1024 ^ k, k) \<and> (k < 4 \<longrightarrow> x / 1024 ^ k < 1024)
          \<and> (0 < k \<longrightarrow> 1024 \<le> x / 1024 ^ (k - 1))"
proof -
  consider (a) "x < 1024"
    | (b) "1024 \<le> x" "x / 1024 < 1024"
    | (c) "1024 \<le> x" "1024 \<le> x / 1024" "x / 1024 / 1024 < 1024"
    | (d) "1024 \<le> x" "1024 \<le> x / 1024" "1024 \<le> x / 1024 / 1024" "x / 1024 / 1024 / 1024 < 1024"
    | (e) "1024 \<le> x" "1024 \<le> x / 1024" "1024 \<le> x / 1024 / 1024" "1024 \<le> x / 1024 / 1024 / 1024"
    by linarith
  then show ?thesis
  proof cases
    case a
    then have "scale x 0 = (x / 1024 ^ 0, 0)" by (simp add: scale_step)
    with a show ?thesis by (intro exI [of _ 0]) simp
  next
    case b
    then have "scale x 0 = (x / 1024 ^ 1, 1)" by (simp add: scale_step)
    with b show ?thesis by (intro exI [of _ 1]) simp
  next
    case c
    then have "scale x 0 = (x / 1024 ^ 2, 2)" by (simp add: scale_step power2_eq_square)
    with c show ?thesis by (intro exI [of _ 2]) (simp add: power2_eq_square)
  next
    case d
    then have "scale x 0 = (x / 1024 ^ 3, 3)" by (simp add: scale_step power3_eq_cube)
    with d show ?thesis by (intro exI [of _ 3]) (simp add: power2_eq_square power3_eq_cube)
  next
    case e
    then have "scale x 0 = (x / 1024 ^ 4, 4)" by (simp add: scale_step power4_eq_xxxx)
    with e show ?thesis by (intro exI [of _ 4]) (simp add: power3_eq_cube power4_eq_xxxx)
  qed
qed

subsection \<open>Two decimal places\<close>

lemma decimal_small: "n < 10 \<Longrightarrow> decimal n = [of_nat (48 + n)]"
  by (subst decimal.simps) simp

lemma decimal_large: "10 \<le> n \<Longrightarrow> decimal n = decimal (n div 10) @ [of_nat (48 + n mod 10)]"
  by (subst decimal.simps) simp

lemma decimal_not_Nil: "decimal n \<noteq> []"
  by (subst decimal.simps) simp

lemma toFixed_2:
  "toFixed x 2 =
     (if x < 0 then [0x2D] else [])
     @ decimal (roundTo x 2 div 100)
     @ [0x2E, of_nat (48 + roundTo x 2 div 10 mod 10), of_nat (48 + roundTo x 2 mod 10)]"
proof -
  define h where "h = roundTo x 2"
  consider (a) "h < 10" | (b) "10 \<le> h" "h < 100" | (c) "100 \<le> h"
    by linarith
  then have "(let m = decimal h;
                  m' = (if length m \<le> 2 then replicate (2 + 1 - length m) 0x30 @ m else m)
              in take (length m' - 2) m' @ [0x2E] @ drop (length m' - 2) m')
             = decimal (h div 100) @ [0x2E, of_nat (48 + h div 10 mod 10), of_nat (48 + h mod 10)]"
  proof cases
    case a
    then show ?thesis by (simp add: decimal_small)
  next
    case b
    then have "decimal h = [of_nat (48 + h div 10), of_nat (48 + h mod 10)]"
      by (simp add: decimal_large decimal_small)
    with b show ?thesis by (simp add: decimal_small)
  next
    case c
    then have "decimal h = decimal (h div 100) @ [of_nat (48 + h div 10 mod 10), of_nat (48 + h mod 10)]"
      by (simp add: decimal_large [of h] decimal_large [of "h div 10"] div_mult2_eq [symmetric])
    moreover have "length (decimal (h div 100)) > 0"
      by (simp add: decimal_not_Nil)
    ultimately show ?thesis by simp
  qed
  then show ?thesis
    by (simp add: toFixed_def h_def Let_def)
qed

subsection \<open>The rendering\<close>

lemma floor_rat_numeral:
  "\<lfloor>(numeral a / numeral b :: rat)\<rfloor> = numeral a div numeral b"
  using floor_divide_of_int_eq [of "numeral a" "numeral b", where ?'a = rat] by simp

lemma formatFileSize_absent:
  "formatFileSize Undefined = js ''N/A''" "formatFileSize Null = js ''N/A''"
  "formatFileSize (Val []) = js ''N/A''"
  "parseInt t = None \<Longrightarrow> formatFileSize (Val t) = js ''N/A''"
  by (simp_all add: formatFileSize_def)

lemma parseInt_Nil: "parseInt [] = None"
  by (simp add: parseInt_def)

lemma scaled_above:
  fixes x :: rat
  assumes "1024 \<le> x / 1024 ^ (k - 1)" and "j < k"
  shows "1024 \<le> x / 1024 ^ j"
proof -
  from assms(2) have "k - 1 = j + (k - 1 - j)" by simp
  then have "(1024 :: rat) ^ (k - 1) = 1024 ^ j * 1024 ^ (k - 1 - j)"
    by (metis power_add)
  then have e: "x / 1024 ^ j = x / 1024 ^ (k - 1) * 1024 ^ (k - 1 - j)"
    by simp
  have "(1 :: rat) \<le> 1024 ^ (k - 1 - j)"
    by (rule one_le_power) simp
  with assms(1) have "1024 * 1 \<le> x / 1024 ^ (k - 1) * 1024 ^ (k - 1 - j)"
    by (intro mult_mono) simp_all
  with e show ?thesis by simp
qed

lemma formatFileSize_scaled:
  assumes "parseInt s = Some n"
  shows "\<exists>k\<le>4. (k < 4 \<longrightarrow> of_int n / 1024 ^ k < (1024 :: rat))
          \<and> (\<forall>j<k. (1024 :: rat) \<le> of_int n / 1024 ^ j)
          \<and> formatFileSize (Val s) =
              (if n < 0 then [0x2D] else [])
              @ decimal (roundTo (of_int n / 1024 ^ k) 2 div 100)
              @ [0x2E, of_nat (48 + roundTo (of_int n / 1024 ^ k) 2 div 10 mod 10),
                 of_nat (48 + roundTo (of_int n / 1024 ^ k) 2 mod 10)]
              @ js '' '' @ units ! k"
proof -
  from assms have "s \<noteq> []" by (auto simp add: parseInt_Nil)
  from scale_0 [of "of_int n"] obtain k where k:
    "k \<le> 4 \<and> scale (of_int n) 0 = (of_int n / 1024 ^ k, k)
      \<and> (k < 4 \<longrightarrow> of_int n / 1024 ^ k < (1024 :: rat))
      \<and> (0 < k \<longrightarrow> (1024 :: rat) \<le> of_int n / 1024 ^ (k - 1))"
    by (elim exE)
  have sign: "(of_int n / 1024 ^ k < (0 :: rat)) = (n < 0)"
    by (simp add: divide_less_0_iff)
  have "formatFileSize (Val s) = toFixed (of_int n / 1024 ^ k) 2 @ js '' '' @ units ! k"
    using assms \<open>s \<noteq> []\<close> k by (simp add: formatFileSize_def)
  then have fmt: "formatFileSize (Val s) =
              (if n < 0 then [0x2D] else [])
              @ decimal (roundTo (of_int n / 1024 ^ k) 2 div 100)
              @ [0x2E, of_nat (48 + roundTo (of_int n / 1024 ^ k) 2 div 10 mod 10),
                 of_nat (48 + roundTo (of_int n / 1024 ^ k) 2 mod 10)]
              @ js '' '' @ units ! k"
    by (simp only: toFixed_2 sign append_assoc)
  show ?thesis
  proof (intro exI conjI)
    show "k \<le> 4" using k by (rule conjunct1)
    show "k < 4 \<longrightarrow> of_int n / 1024 ^ k < (1024 :: rat)" using k by blast
    show "\<forall>j<k. (1024 :: rat) \<le> of_int n / 1024 ^ j"
    proof (intro allI impI)
      fix j assume "j < k"
      with k have "(1024 :: rat) \<le> of_int n / 1024 ^ (k - 1)" by simp
      then show "(1024 :: rat) \<le> of_int n / 1024 ^ j"
        using \<open>j < k\<close> by (rule scaled_above)
    qed
    show "formatFileSize (Val s) =
              (if n < 0 then [0x2D] else [])
              @ decimal (roundTo (of_int n / 1024 ^ k) 2 div 100)
              @ [0x2E, of_nat (48 + roundTo (of_int n / 1024 ^ k) 2 div 10 mod 10),
                 of_nat (48 + roundTo (of_int n / 1024 ^ k) 2 mod 10)]
              @ js '' '' @ units ! k" by (rule fmt)
  qed
qed

lemma parseInt_1536: "parseInt (js ''1536'') = Some 1536"
  by (simp add: parseInt_eval)

lemma parseInt_abc: "parseInt (js ''abc'') = None"
  by (simp add: parseInt_eval)

lemma parseInt_1048575: "parseInt (js ''1048575'') = Some 1048575"
  by (simp add: parseInt_eval)

lemma roundTo_1536: "roundTo (1536 / 1024) 2 = 150"
  by (simp add: roundTo_def floor_rat_numeral)

lemma roundTo_1048575: "roundTo (1048575 / 1024) 2 = 102400"
  by (simp add: roundTo_def floor_rat_numeral)

lemma formatFileSize_1536: "formatFileSize (Val (js ''1536'')) = js ''1.50 KB''"
proof -
  have "scale 1536 0 = (1536 / 1024, 1)"
    by (simp add: scale_step)
  moreover have "toFixed (1536 / 1024) 2 = js ''1.50''"
    unfolding toFixed_2 roundTo_1536 by (simp add: decimal_small js_def)
  ultimately show ?thesis
    by (simp add: formatFileSize_def parseInt_1536 units_def js_append [symmetric])
qed

lemma formatFileSize_1048575: "formatFileSize (Val (js ''1048575'')) = js ''1024.00 KB''"
proof -
  have "scale 1048575 0 = (1048575 / 1024, 1)"
    by (simp add: scale_step)
  moreover have "decimal 1024 = js ''1024''"
    by (simp add: decimal_small decimal_large js_def)
  then have "toFixed (1048575 / 1024) 2 = js ''1024.00''"
    unfolding toFixed_2 roundTo_1048575 by (simp add: js_def)
  ultimately show ?thesis
    by (simp add: formatFileSize_def parseInt_1048575 units_def js_append [symmetric])
qed

text \<open>
  Claim C2, amended. An absent, null, empty or unparseable input gives \<open>N/A\<close>. Otherwise,
  for a parsed integer \<open>n\<close> of magnitude at most \<open>2 ^ 53\<close> (where the source's doubles are
  exact), the value is divided by 1024 \<open>k\<close> times, \<open>k\<close> being the smallest unit index at
  which the scaled value (before rounding) is below 1024, or 4 (TB) when there is none.
  The text
  is the sign, the scaled value rounded to hundredths (halves upwards) with exactly two
  decimal digits, a space and the unit. The rounded number shown may read \<open>1024.00\<close>.
\<close>

theorem formatFileSize_rendering:
  assumes "parseInt s = Some n" and "\<bar>n\<bar> \<le> 2 ^ 53"
  shows "formatFileSize Undefined = js ''N/A'' \<and> formatFileSize Null = js ''N/A''
         \<and> formatFileSize (Val []) = js ''N/A''
         \<and> (parseInt t = None \<longrightarrow> formatFileSize (Val t) = js ''N/A'')
         \<and> (\<exists>k\<le>4. (k < 4 \<longrightarrow> of_int n / 1024 ^ k < (1024 :: rat))
              \<and> (\<forall>j<k. (1024 :: rat) \<le> of_int n / 1024 ^ j)
              \<and> formatFileSize (Val s) =
                  (if n < 0 then [0x2D] else [])
                  @ decimal (roundTo (of_int n / 1024 ^ k) 2 div 100)
                  @ [0x2E, of_nat (48 + roundTo (of_int n / 1024 ^ k) 2 div 10 mod 10),
                     of_nat (48 + roundTo (of_int n / 1024 ^ k) 2 mod 10)]
                  @ js '' '' @ units ! k)"
proof (intro conjI impI)
  show "parseInt t = None \<Longrightarrow> formatFileSize (Val t) = js ''N/A''"
    by (rule formatFileSize_absent(4))
qed (rule formatFileSize_absent(1) formatFileSize_absent(2) formatFileSize_absent(3)
       formatFileSize_scaled [OF assms(1)])+

theorem formatFileSize_rendering_witness:
  "parseInt (js ''1536'') = Some 1536 \<and> \<bar>1536 :: int\<bar> \<le> 2 ^ 53
   \<and> parseInt (js ''abc'') = None \<and> formatFileSize (Val (js ''abc'')) = js ''N/A''
   \<and> formatFileSize Undefined = js ''N/A''
   \<and> formatFileSize (Val (js ''1536'')) = js ''1.50 KB''
   \<and> (\<exists>k\<le>4. (k < 4 \<longrightarrow> of_int 1536 / 1024 ^ k < (1024 :: rat))
        \<and> (\<forall>j<k. (1024 :: rat) \<le> of_int 1536 / 1024 ^ j)
        \<and> js ''1.50 KB'' =
            (if (1536 :: int) < 0 then [0x2D] else [])
            @ decimal (roundTo (of_int 1536 / 1024 ^ k) 2 div 100)
            @ [0x2E, of_nat (48 + roundTo (of_int 1536 / 1024 ^ k) 2 div 10 mod 10),
               of_nat (48 + roundTo (of_int 1536 / 1024 ^ k) 2 mod 10)]
            @ js '' '' @ units ! k)"
proof -
  have b: "\<bar>1536 :: int\<bar> \<le> 2 ^ 53" by simp
  from formatFileSize_rendering [OF parseInt_1536 b, of "js ''abc''"]
  show ?thesis
    unfolding formatFileSize_1536 using parseInt_1536 parseInt_abc b by blast
qed

text \<open>
  Claim C2 as stated fails at \<open>"1048575"\<close>: the scaled value \<open>1048575 / 1024\<close> is below
  1024, so the unit stays KB, and it is displayed as \<open>1024.00\<close>, which is not below 1024.
\<close>

theorem formatFileSize_rounds_up_to_1024_counterexample:
  "parseInt (js ''1048575'') = Some 1048575
   \<and> formatFileSize (Val (js ''1048575'')) = js ''1024.00 KB''
   \<and> (1048575 :: rat) / 1024 < 1024
   \<and> \<not> (of_nat (roundTo (1048575 / 1024) 2) / 100 < (1024 :: rat))"
  by (simp add: parseInt_1048575 formatFileSize_1048575 roundTo_1048575)

section \<open>C3: export or raw download\<close>








section \<open>C4: a role outside the closed set\<close>

lemma shareFile_fallback:
  "role \<notin> set validRoles \<Longrightarrow>
   shareFile env fileId email role st = shareFile env fileId email (js ''reader'') st"
  by (simp add: shareFile_def shareFile_try_def validRoles_def)

lemma shareFile_success:
  assumes "trim fileId \<noteq> []" and "trim email \<noteq> []" and "getDriveClient env = Inr drive"
    and "permissions_create drive
           (PermissionsCreate (trim fileId) (js ''user'')
              (if role \<in> set validRoles then role else js ''reader'') (trim email) (js ''id'')) w
           = (Inr permission, w')"
    and "files_get drive (FilesGet (trim fileId) (Some (js ''name, webViewLink'')) None) w'
           = (Inr fileInfo, w'')"
  shows "shareFile env fileId email role (issued, w) =
           ([0x2705] @ js '' File shared successfully:\<newline>''
            @ js ''File: '' @ tpl (name fileInfo) @ js ''\<newline>''
            @ js ''Shared with: '' @ trim email @ js ''\<newline>''
            @ js ''Permission: '' @ (if role \<in> set validRoles then role else js ''reader'')
            @ js ''\<newline>''
            @ js ''Link: '' @ or_else (webViewLink fileInfo) (js ''N/A''),
            (issued @ [PermissionsCreate (trim fileId) (js ''user'')
                         (if role \<in> set validRoles then role else js ''reader'')
                         (trim email) (js ''id''),
                       FilesGet (trim fileId) (Some (js ''name, webViewLink'')) None], w''))"
  using assms
  by (simp add: shareFile_def shareFile_try_def validateRequired_ok catch_format_def call_def Let_def)

text \<open>
  Claim C4. For a role that is none of \<open>reader\<close>, \<open>writer\<close>, \<open>commenter\<close>, a run of
  \<open>shareFile\<close> whose two remote calls succeed creates the permission with role \<open>reader\<close>,
  reports \<open>Permission: reader\<close> in the success text, and is in every respect the run for
  the role \<open>reader\<close>: the role itself raises no error.
\<close>

theorem shareFile_unknown_role_is_reader:
  assumes "role \<notin> set validRoles"
    and "trim fileId \<noteq> []" and "trim email \<noteq> []" and "getDriveClient env = Inr drive"
    and "permissions_create drive
           (PermissionsCreate (trim fileId) (js ''user'') (js ''reader'') (trim email) (js ''id'')) w
           = (Inr permission, w')"
    and "files_get drive (FilesGet (trim fileId) (Some (js ''name, webViewLink'')) None) w'
           = (Inr fileInfo, w'')"
  shows "shareFile env fileId email role (issued, w) =
           ([0x2705] @ js '' File shared successfully:\<newline>''
            @ js ''File: '' @ tpl (name fileInfo) @ js ''\<newline>''
            @ js ''Shared with: '' @ trim email @ js ''\<newline>''
            @ js ''Permission: reader\<newline>''
            @ js ''Link: '' @ or_else (webViewLink fileInfo) (js ''N/A''),
            (issued @ [PermissionsCreate (trim fileId) (js ''user'') (js ''reader'')
                         (trim email) (js ''id''),
                       FilesGet (trim fileId) (Some (js ''name, webViewLink'')) None], w''))
         \<and> shareFile env fileId email role (issued, w)
             = shareFile env fileId email (js ''reader'') (issued, w)"
  using shareFile_success [of fileId email env drive role w permission w' fileInfo w'' issued]
    shareFile_fallback [of role env fileId email "(issued, w)"] assms
  by (simp add: js_def)


theorem shareFile_unknown_role_is_reader_witness:
  "js ''admin'' \<notin> set validRoles
   \<and> shareFile (sample_env (sample_service sample_file)) (js ''1AbC'') (js ''ann@example.org'')
       (js ''admin'') ([], 0)
     = ([0x2705] @ js '' File shared successfully:\<newline>File: notes.txt\<newline>Shared with: ann@example.org\<newline>Permission: reader\<newline>Link: N/A'',
        ([PermissionsCreate (js ''1AbC'') (js ''user'') (js ''reader'') (js ''ann@example.org'')
            (js ''id''),
          FilesGet (js ''1AbC'') (Some (js ''name, webViewLink'')) None], 2))"
proof -
  have r: "js ''admin'' \<notin> set validRoles" by (simp add: validRoles_def)
  have t: "trim (js ''1AbC'') \<noteq> []" "trim (js ''ann@example.org'') \<noteq> []"
    by (simp_all add: trim_1AbC trim_email)
  have p: "permissions_create (sample_service sample_file) q 0 = (Inr (Val (js ''perm-7'')), 1)" for q
    by (simp add: sample_service_def)
  have g: "files_get (sample_service sample_file) q 1 = (Inr sample_file, 2)" for q
    by (simp add: sample_service_def)
  show ?thesis
    using r shareFile_unknown_role_is_reader [OF r t getDriveClient_sample p g, of "[]"]
    by (simp add: trim_1AbC trim_email sample_file_def or_else_def) (simp add: js_def)
qed

section \<open>C5: \<open>deleteFile\<close> only moves to the trash\<close>

lemma deleteFile_blank:
  "trim fileId = [] \<Longrightarrow>
   deleteFile env fileId st = (formatError (Error (js ''fileId is required'')), st)"
  by (simp add: deleteFile_def deleteFile_try_def validateRequired_blank catch_format_def
        js_append [symmetric] del: formatError.simps)

lemma deleteFile_no_client:
  "trim fileId \<noteq> [] \<Longrightarrow> getDriveClient env = Inl e \<Longrightarrow>
   deleteFile env fileId st = (formatError e, st)"
  by (simp add: deleteFile_def deleteFile_try_def validateRequired_ok catch_format_def
        del: formatError.simps)

lemma deleteFile_get_fails:
  "trim fileId \<noteq> [] \<Longrightarrow> getDriveClient env = Inr drive \<Longrightarrow>
   files_get drive (FilesGet (trim fileId) (Some (js ''name'')) None) w = (Inl e, w') \<Longrightarrow>
   deleteFile env fileId (issued, w)
     = (formatError e, (issued @ [FilesGet (trim fileId) (Some (js ''name'')) None], w'))"
  by (simp add: deleteFile_def deleteFile_try_def validateRequired_ok catch_format_def call_def
        del: formatError.simps)

lemma deleteFile_get_ok:
  "trim fileId \<noteq> [] \<Longrightarrow> getDriveClient env = Inr drive \<Longrightarrow>
   files_get drive (FilesGet (trim fileId) (Some (js ''name'')) None) w = (Inr fileInfo, w') \<Longrightarrow>
   fst (snd (deleteFile env fileId (issued, w)))
     = issued @ [FilesGet (trim fileId) (Some (js ''name'')) None, FilesUpdate (trim fileId) True]"
  by (simp add: deleteFile_def deleteFile_try_def validateRequired_ok catch_format_def call_def
        split: prod.splits sum.splits del: formatError.simps)

lemma deleteFile_issued:
  "\<exists>new. fst (snd (deleteFile env fileId (issued, w))) = issued @ new
     \<and> (new = [] \<or> new = [FilesGet (trim fileId) (Some (js ''name'')) None]
        \<or> new = [FilesGet (trim fileId) (Some (js ''name'')) None, FilesUpdate (trim fileId) True])"
proof (cases "trim fileId = []")
  case True
  then show ?thesis by (simp add: deleteFile_blank)
next
  case False
  show ?thesis
  proof (cases "getDriveClient env")
    case (Inl e)
    with False show ?thesis by (simp add: deleteFile_no_client)
  next
    case (Inr drive)
    obtain r w' where g: "files_get drive (FilesGet (trim fileId) (Some (js ''name'')) None) w = (r, w')"
      by (cases "files_get drive (FilesGet (trim fileId) (Some (js ''name'')) None) w")
    show ?thesis
    proof (cases r)
      case (Inl e)
      with False Inr g show ?thesis by (simp add: deleteFile_get_fails)
    next
      case r: (Inr fileInfo)
      with False Inr g show ?thesis by (simp add: deleteFile_get_ok)
    qed
  qed
qed

text \<open>
  Claim C5. Whatever the configuration, the argument and the remote side, the requests
  \<open>deleteFile\<close> adds are none, the read of the name, or that read followed by the update
  with \<open>trashed: true\<close>. So the only mutating request it can issue is that update, and
  \<open>files.delete\<close> is never among its requests.
\<close>

theorem deleteFile_only_trashes:
  "\<exists>new. fst (snd (deleteFile env fileId (issued, w))) = issued @ new
     \<and> (new = [] \<or> new = [FilesGet (trim fileId) (Some (js ''name'')) None]
        \<or> new = [FilesGet (trim fileId) (Some (js ''name'')) None, FilesUpdate (trim fileId) True])
     \<and> (\<forall>r\<in>set new. mutating r \<longrightarrow> r = FilesUpdate (trim fileId) True)
     \<and> (\<forall>r\<in>set new. \<forall>i. r \<noteq> FilesDelete i)"
proof -
  from deleteFile_issued [of env fileId issued w] obtain new where
    n: "fst (snd (deleteFile env fileId (issued, w))) = issued @ new"
       "new = [] \<or> new = [FilesGet (trim fileId) (Some (js ''name'')) None]
        \<or> new = [FilesGet (trim fileId) (Some (js ''name'')) None, FilesUpdate (trim fileId) True]"
    by blast
  from n(2) have "(\<forall>r\<in>set new. mutating r \<longrightarrow> r = FilesUpdate (trim fileId) True)
     \<and> (\<forall>r\<in>set new. \<forall>i. r \<noteq> FilesDelete i)"
    by auto
  with n show ?thesis by blast
qed


lemma deleteFile_sample:
  "fst (snd (deleteFile (sample_env (sample_service sample_file)) (js ''1AbC'') ([], 0)))
     = [FilesGet (js ''1AbC'') (Some (js ''name'')) None, FilesUpdate (js ''1AbC'') True]"
  by (simp add: deleteFile_def deleteFile_try_def validateRequired_ok trim_1AbC catch_format_def
        call_def sample_service_def)

theorem deleteFile_only_trashes_witness:
  "fst (snd (deleteFile (sample_env (sample_service sample_file)) (js ''1AbC'') ([], 0)))
     = [FilesGet (js ''1AbC'') (Some (js ''name'')) None, FilesUpdate (js ''1AbC'') True]
   \<and> \<not> mutating (FilesGet (js ''1AbC'') (Some (js ''name'')) None)
   \<and> mutating (FilesUpdate (js ''1AbC'') True)
   \<and> (\<exists>new. [FilesGet (js ''1AbC'') (Some (js ''name'')) None, FilesUpdate (js ''1AbC'') True]
              = [] @ new
        \<and> (\<forall>r\<in>set new. mutating r \<longrightarrow> r = FilesUpdate (js ''1AbC'') True)
        \<and> (\<forall>r\<in>set new. \<forall>i. r \<noteq> FilesDelete i))"
  using deleteFile_only_trashes [of "sample_env (sample_service sample_file)" "js ''1AbC''" "[]" 0]
  unfolding deleteFile_sample trim_1AbC by auto

section \<open>C10: \<open>deleteFile\<close> stops at the first failure\<close>

text \<open>
  Claim C10. When the file id is blank, or the client cannot be built, \<open>deleteFile\<close>
  returns the error text with the state untouched. When the read of the name fails, it
  returns that error, the read is the only request issued, and the remote state is the
  one the read left: the update is never issued. When the read succeeds, the update is
  issued, after the read.
\<close>

theorem deleteFile_stops_at_first_failure:
  "(trim fileId = [] \<longrightarrow>
      deleteFile env fileId (issued, w)
        = ([0x274C] @ js '' Error: fileId is required'', (issued, w)))
   \<and> (trim fileId \<noteq> [] \<and> getDriveClient env = Inl e \<longrightarrow>
      deleteFile env fileId (issued, w) = (formatError e, (issued, w)))
   \<and> (trim fileId \<noteq> [] \<and> getDriveClient env = Inr drive
        \<and> files_get drive (FilesGet (trim fileId) (Some (js ''name'')) None) w = (Inl e, w') \<longrightarrow>
      deleteFile env fileId (issued, w)
        = (formatError e, (issued @ [FilesGet (trim fileId) (Some (js ''name'')) None], w')))
   \<and> (trim fileId \<noteq> [] \<and> getDriveClient env = Inr drive
        \<and> files_get drive (FilesGet (trim fileId) (Some (js ''name'')) None) w = (Inr fileInfo, w') \<longrightarrow>
      fst (snd (deleteFile env fileId (issued, w)))
        = issued @ [FilesGet (trim fileId) (Some (js ''name'')) None,
                    FilesUpdate (trim fileId) True])"
  using deleteFile_blank [of fileId env "(issued, w)"]
    deleteFile_no_client [of fileId env e "(issued, w)"]
    deleteFile_get_fails [of fileId env drive w e w' issued]
    deleteFile_get_ok [of fileId env drive w fileInfo w' issued]
  by (simp add: js_def)

theorem deleteFile_stops_at_first_failure_witness:
  "deleteFile (sample_env failing_service) (js ''1AbC'') ([], 0)
     = ([0x274C] @ js '' Error: File not found'',
        ([FilesGet (js ''1AbC'') (Some (js ''name'')) None], 1))
   \<and> deleteFile (sample_env failing_service) (js ''  '') ([], 0)
     = ([0x274C] @ js '' Error: fileId is required'', ([], 0))
   \<and> deleteFile (unconfigured_env failing_service) (js ''1AbC'') ([], 0)
     = ([0x274C] @ js '' Error: '' @ missing_credentials, ([], 0))
   \<and> fst (snd (deleteFile (sample_env (sample_service sample_file)) (js ''1AbC'') ([], 0)))
     = [FilesGet (js ''1AbC'') (Some (js ''name'')) None, FilesUpdate (js ''1AbC'') True]"
proof -
  have b: "trim (js ''  '') = []" by (simp add: trim_def js_def isWhiteSpace_def)
  have f: "files_get failing_service r 0 = (Inl (Error (js ''File not found'')), 1)" for r
    by (simp add: failing_service_def)
  have g: "files_get (sample_service sample_file) r 0 = (Inr sample_file, 1)" for r
    by (simp add: sample_service_def)
  show ?thesis
    using deleteFile_stops_at_first_failure
        [where fileId = "js ''1AbC''" and env = "sample_env failing_service" and issued = "[]"
           and w = 0 and drive = failing_service and e = "Error (js ''File not found'')"
           and w' = 1]
      deleteFile_stops_at_first_failure
        [where fileId = "js ''  ''" and env = "sample_env failing_service" and issued = "[]"
           and w = 0]
      deleteFile_stops_at_first_failure
        [where fileId = "js ''1AbC''" and env = "unconfigured_env failing_service"
           and issued = "[]" and w = 0 and e = "Error missing_credentials"]
      deleteFile_stops_at_first_failure
        [where fileId = "js ''1AbC''" and env = "sample_env (sample_service sample_file)"
           and issued = "[]" and w = 0 and drive = "sample_service sample_file" and w' = 1
           and fileInfo = sample_file]
    by (simp add: b f g trim_1AbC js_append [symmetric])
qed

section \<open>C8: missing credentials\<close>

lemma validateRequired_cases:
  "validateRequired (Some s) nm =
     (if trim s = [] then Inl (Error (nm @ js '' is required'')) else Inr (trim s))"
  by (auto simp add: validateRequired_def)

lemma no_client_listFiles:
  "getDriveClient env = Inl e \<Longrightarrow> listFiles env folderId pageSize st = (formatError e, st)"
  by (simp add: listFiles_def listFiles_try_def catch_format_def del: formatError.simps)

lemma no_client_searchFiles:
  "getDriveClient env = Inl e \<Longrightarrow>
   searchFiles env query pageSize st =
     (if trim query = [] then formatError (Error (js ''query'' @ js '' is required''))
      else formatError e, st)"
  by (simp add: searchFiles_def searchFiles_try_def validateRequired_cases catch_format_def
        del: formatError.simps)

lemma no_client_getFileMetadata:
  "getDriveClient env = Inl e \<Longrightarrow>
   getFileMetadata env fileId st =
     (if trim fileId = [] then formatError (Error (js ''fileId'' @ js '' is required''))
      else formatError e, st)"
  by (simp add: getFileMetadata_def getFileMetadata_try_def validateRequired_cases catch_format_def
        del: formatError.simps)

lemma no_client_createFolder:
  "getDriveClient env = Inl e \<Longrightarrow>
   createFolder env folderName parentFolderId st =
     (if trim folderName = [] then formatError (Error (js ''folderName'' @ js '' is required''))
      else formatError e, st)"
  by (simp add: createFolder_def createFolder_try_def validateRequired_cases catch_format_def
        del: formatError.simps)

lemma no_client_uploadFile:
  "getDriveClient env = Inl e \<Longrightarrow>
   uploadFile env fileName content mimeType' folderId st =
     (if trim fileName = [] then formatError (Error (js ''fileName'' @ js '' is required''))
      else if trim content = [] then formatError (Error (js ''content'' @ js '' is required''))
      else formatError e, st)"
  by (simp add: uploadFile_def uploadFile_try_def validateRequired_cases catch_format_def
        del: formatError.simps)

lemma no_client_downloadFile:
  "getDriveClient env = Inl e \<Longrightarrow>
   downloadFile env fileId st =
     (if trim fileId = [] then formatError (Error (js ''fileId'' @ js '' is required''))
      else formatError e, st)"
  by (simp add: downloadFile_def downloadFile_try_def validateRequired_cases catch_format_def
        del: formatError.simps)

lemma no_client_shareFile:
  "getDriveClient env = Inl e \<Longrightarrow>
   shareFile env fileId email role st =
     (if trim fileId = [] then formatError (Error (js ''fileId'' @ js '' is required''))
      else if trim email = [] then formatError (Error (js ''email'' @ js '' is required''))
      else formatError e, st)"
  by (simp add: shareFile_def shareFile_try_def validateRequired_cases catch_format_def
        del: formatError.simps)

lemma no_client_deleteFile:
  "getDriveClient env = Inl e \<Longrightarrow>
   deleteFile env fileId st =
     (if trim fileId = [] then formatError (Error (js ''fileId'' @ js '' is required''))
      else formatError e, st)"
  by (simp add: deleteFile_def deleteFile_try_def validateRequired_cases catch_format_def
        del: formatError.simps)

lemmas no_client =
  no_client_listFiles no_client_searchFiles no_client_getFileMetadata no_client_createFolder
  no_client_uploadFile no_client_downloadFile no_client_shareFile no_client_deleteFile

lemma no_client_state:
  "getDriveClient env = Inl e \<Longrightarrow> snd (call_tool env nm args st) = st"
  by (simp add: call_tool_def call_tool_try_def text_result_def no_client
        del: formatError.simps)

lemma no_client_text:
  assumes "getDriveClient env = Inl e" and "(nm, props, required) \<in> set TOOLS"
    and "\<forall>k\<in>set required. trim (arg args k []) \<noteq> []"
  shows "call_tool env nm args st = (\<lparr>content_text = formatError e, isError = None\<rparr>, st)"
  using assms(2,3)
  by (auto simp add: TOOLS_def call_tool_def call_tool_try_def text_result_def
        no_client [OF assms(1)] simp del: formatError.simps)

text \<open>
  Claim C8. When one of the three secrets is empty, no call of any tool, whatever its name
  and arguments, issues a request or touches the remote side. For each tool of the
  registry called with its required arguments not blank, that is, each invocation that
  gets as far as needing the client, the result is the configuration error as formatted
  text.
\<close>

theorem missing_credentials_fail_closed:
  assumes "CLIENT_ID env = [] \<or> CLIENT_SECRET env = [] \<or> REFRESH_TOKEN env = []"
  shows "snd (call_tool env nm args st) = st
         \<and> ((nm, props, required) \<in> set TOOLS
              \<and> (\<forall>k\<in>set required. trim (arg args k []) \<noteq> []) \<longrightarrow>
            call_tool env nm args st
              = (\<lparr>content_text = [0x274C] @ js '' Error: '' @ missing_credentials,
                  isError = None\<rparr>, st))"
  using no_client_state [OF getDriveClient_missing [OF assms], of nm args st]
    no_client_text [OF getDriveClient_missing [OF assms], of nm props required args st]
  by simp

theorem missing_credentials_fail_closed_witness:
  "REFRESH_TOKEN (unconfigured_env (sample_service sample_file)) = []
   \<and> (js ''delete_file'', [js ''fileId''], [js ''fileId'']) \<in> set TOOLS
   \<and> trim (arg (Some [js ''fileId'' \<mapsto> js ''1AbC'']) (js ''fileId'') []) = js ''1AbC''
   \<and> call_tool (unconfigured_env (sample_service sample_file)) (js ''delete_file'')
        (Some [js ''fileId'' \<mapsto> js ''1AbC'']) ([], 0)
      = (\<lparr>content_text = [0x274C] @ js '' Error: '' @ missing_credentials, isError = None\<rparr>,
         ([], 0))"
proof -
  have c: "CLIENT_ID (unconfigured_env (sample_service sample_file)) = []
           \<or> CLIENT_SECRET (unconfigured_env (sample_service sample_file)) = []
           \<or> REFRESH_TOKEN (unconfigured_env (sample_service sample_file)) = []"
    by (simp add: unconfigured_env_def)
  have m: "(js ''delete_file'', [js ''fileId''], [js ''fileId'']) \<in> set TOOLS"
    by (simp add: TOOLS_def)
  have a: "arg (Some [js ''fileId'' \<mapsto> js ''1AbC'']) (js ''fileId'') [] = js ''1AbC''"
    by (simp add: arg_def)
  show ?thesis
    using missing_credentials_fail_closed [OF c, of "js ''delete_file''"
        "Some [js ''fileId'' \<mapsto> js ''1AbC'']" "([], 0)" "[js ''fileId'']" "[js ''fileId'']"] m
    by (simp add: a trim_1AbC unconfigured_env_def)
qed

section \<open>C1: errors raised inside a handler\<close>






section \<open>C9: what the rendered text contains\<close>






























end
